theory Spec2Isabelle
  imports Main "HOL-Library.Word"
begin

section \<open>The Redis watcher of watcher.go\<close>

text \<open>
  The watcher talks to a Redis broker through the redigo library. The library and the
  broker are outside the repository, so every call into them is an observable action of
  the model, appended to a trace in call order, and every value they hand back is an
  input of the model: a function of the environment for the calls of the constructor and
  of \<open>Update\<close>, the reply of the pending call for the background loop.
\<close>

subsection \<open>Values of the library\<close>

text \<open>A Go \<open>error\<close> value other than nil, a connection handle, a byte of a payload.\<close>

datatype error = Err string

type_synonym conn = nat

type_synonym byte = "8 word"

text \<open>
  What \<open>psc.Receive()\<close> returns (the type switch of \<open>subscribe\<close> looks at the dynamic
  type): \<open>redis.Message{Channel, Data}\<close>, \<open>redis.PMessage{Pattern, Channel, Data}\<close>,
  \<open>redis.Subscription{Kind, Channel, Count}\<close>, \<open>redis.Pong{Data}\<close> or an error.
  \<open>Count\<close> is a Go \<open>int\<close>; the source only compares it with zero.
\<close>

datatype event =
    Message string "byte list"
  | PMessage string string "byte list"
  | Subscription string string int
  | Pong string
  | RecvError error

text \<open>The conversion \<open>string(n.Data)\<close>: a Go string holds the same bytes.\<close>

definition string_of_bytes :: "byte list \<Rightarrow> string" where
  "string_of_bytes bs = map (\<lambda>b. char_of (unat b)) bs"

subsection \<open>The watcher and its options\<close>

text \<open>
  Modelled from the spec: the declaration of \<open>WatcherOptions\<close> is not in watcher.go. The
  spec's data model gives it a channel name, a network protocol, an optional password
  and an optional pre-established connection; watcher.go reads them as the fields
  \<open>Channel\<close>, \<open>Protocol\<close>, \<open>Password\<close> (the empty string when unset) and \<open>Connection\<close>
  (nil when unset). A \<open>WatcherOption\<close> is a function that updates the options it is
  given (in Go through a pointer).
\<close>

record WatcherOptions =
  Channel :: string
  Connection :: "conn option"
  Password :: string
  Protocol :: string

type_synonym WatcherOption = "WatcherOptions \<Rightarrow> WatcherOptions"

text \<open>
  \<open>type Watcher struct\<close>. The callback is a Go \<open>func(string)\<close> or nil; what it does is
  a change of the state \<open>'u\<close> of its owner.
\<close>

record 'u Watcher =
  options :: WatcherOptions
  connection :: "conn option"
  callback :: "(string \<Rightarrow> 'u \<Rightarrow> 'u) option"

subsection \<open>Actions, the world, the environment\<close>

datatype action =
    DialCall string string
  | DoCall conn string "string list"
  | CloseCall conn
  | SetFinalizerCall
  | GoStmt
  | SubscribeCall conn string
  | UnsubscribeCall conn
  | ReceiveCall conn
  | CallbackCall string
  | PrintfCall error

text \<open>
  The world: the calls made so far, the connections that are open, and the state the
  callback acts on.
\<close>

record 'u world =
  trace :: "action list"
  open_conns :: "conn set"
  user :: 'u

text \<open>
  The environment of the sequential functions: what \<open>redis.Dial(protocol, addr)\<close>
  returns, and the error \<open>c.Do(cmd, args...)\<close> returns (nil is \<open>None\<close>; the source
  discards the reply value at both call sites).
\<close>

record env =
  dial :: "string \<Rightarrow> string \<Rightarrow> error + conn"
  do_cmd :: "conn \<Rightarrow> string \<Rightarrow> string list \<Rightarrow> error option"

text \<open>A Go call either returns or panics (here: on a nil dereference).\<close>

datatype 'a outcome = Return 'a | Panic

definition emit :: "action \<Rightarrow> 'u world \<Rightarrow> 'u world" where
  "emit a st = st\<lparr>trace := trace st @ [a]\<rparr>"

text \<open>The actions that close a connection.\<close>

definition is_close :: "action \<Rightarrow> bool" where
  "is_close a = (case a of CloseCall c \<Rightarrow> True | _ \<Rightarrow> False)"

subsection \<open>Construction\<close>

text \<open>
  The loop \<open>for _, setter := range setters { setter(&w.options) }\<close> of \<open>NewWatcher\<close>:
  each setter works on the options the previous ones left.
\<close>

fun apply_setters :: "WatcherOption list \<Rightarrow> WatcherOptions \<Rightarrow> WatcherOptions" where
  "apply_setters [] opts = opts"
| "apply_setters (setter # setters) opts = apply_setters setters (setter opts)"

text \<open>\<open>c.Close()\<close>; the source ignores what it returns.\<close>

definition close_conn :: "conn \<Rightarrow> 'u world \<Rightarrow> 'u world" where
  "close_conn c st = (emit (CloseCall c) st)\<lparr>open_conns := open_conns st - {c}\<rparr>"

text \<open>
  \<open>func (w *Watcher) connect(addr string) error\<close>, returning the error (nil is \<open>None\<close>),
  the watcher as it leaves it, and the world.
\<close>

definition connect ::
  "env \<Rightarrow> string \<Rightarrow> 'u Watcher \<Rightarrow> 'u world \<Rightarrow> error option \<times> 'u Watcher \<times> 'u world" where
  "connect e addr w st =
     (case Connection (options w) of
        Some c \<Rightarrow> (None, w\<lparr>connection := Some c\<rparr>, st)
      | None \<Rightarrow>
          (let st1 = emit (DialCall (Protocol (options w)) addr) st
           in case dial e (Protocol (options w)) addr of
                Inl err \<Rightarrow> (Some err, w, st1)
              | Inr c \<Rightarrow>
                  (let st2 = st1\<lparr>open_conns := insert c (open_conns st1)\<rparr>
                   in if Password (options w) \<noteq> ''''
                      then
                        (let st3 = emit (DoCall c ''AUTH'' [Password (options w)]) st2
                         in case do_cmd e c ''AUTH'' [Password (options w)] of
                              Some err \<Rightarrow> (Some err, w, close_conn c st3)
                            | None \<Rightarrow> (None, w\<lparr>connection := Some c\<rparr>, st3))
                      else (None, w\<lparr>connection := Some c\<rparr>, st2))))"

text \<open>The options \<open>NewWatcher\<close> starts from; the fields it does not name are zero.\<close>

abbreviation default_options :: WatcherOptions where
  "default_options \<equiv>
     \<lparr>Channel = ''/casbin'', Connection = None, Password = '''', Protocol = ''tcp''\<rparr>"

text \<open>
  \<open>func NewWatcher(addr string, setters ...WatcherOption) (persist.Watcher, error)\<close>.
  \<open>&Watcher{}\<close> has a nil connection and a nil callback. On success the finalizer is
  registered and the background loop is started (\<open>GoStmt\<close>); the loop itself is
  \<open>goroutine_step\<close> below, starting at \<open>Loop Subscribing\<close>.
\<close>

definition NewWatcher ::
  "env \<Rightarrow> string \<Rightarrow> WatcherOption list \<Rightarrow> 'u world \<Rightarrow> (error + 'u Watcher) \<times> 'u world" where
  "NewWatcher e addr setters st =
     (let w = \<lparr>options = apply_setters setters default_options,
                connection = None, callback = None\<rparr>
      in case connect e addr w st of
           (Some err, w', st') \<Rightarrow> (Inl err, st')
         | (None, w', st') \<Rightarrow> (Inr w', emit GoStmt (emit SetFinalizerCall st')))"

text \<open>\<open>func finalizer(w *Watcher)\<close>: closes the watcher's connection.\<close>

definition finalizer :: "'u Watcher \<Rightarrow> 'u world \<Rightarrow> unit outcome \<times> 'u world" where
  "finalizer w st =
     (case connection w of
        None \<Rightarrow> (Panic, st)
      | Some c \<Rightarrow> (Return (), close_conn c st))"

subsection \<open>SetUpdateCallback\<close>

text \<open>
  \<open>func (w *Watcher) SetUpdateCallback(callback func(string)) error\<close>: stores the
  callback (which may be nil) and returns nil.
\<close>

definition SetUpdateCallback ::
  "(string \<Rightarrow> 'u \<Rightarrow> 'u) option \<Rightarrow> 'u Watcher \<Rightarrow> error option \<times> 'u Watcher" where
  "SetUpdateCallback cb w = (None, w\<lparr>callback := cb\<rparr>)"

subsection \<open>Update\<close>

text \<open>
  \<open>func (w *Watcher) Update() error\<close>: one \<open>Do("PUBLISH", channel, marker)\<close> on the
  watcher's connection; its error is returned, nil otherwise. A method call on a nil
  connection panics.
\<close>

definition Update :: "env \<Rightarrow> 'u Watcher \<Rightarrow> 'u world \<Rightarrow> error option outcome \<times> 'u world" where
  "Update e w st =
     (case connection w of
        None \<Rightarrow> (Panic, st)
      | Some c \<Rightarrow>
          (let args = [Channel (options w), ''casbin rules updated''];
               st1 = emit (DoCall c ''PUBLISH'' args) st
           in case do_cmd e c ''PUBLISH'' args of
                Some err \<Rightarrow> (Return (Some err), st1)
              | None \<Rightarrow> (Return None, st1)))"

subsection \<open>The background loop\<close>

text \<open>
  The goroutine of \<open>NewWatcher\<close> runs \<open>for { err := w.subscribe(); ... }\<close> and never
  returns, so it is a transition system. It stops only inside the three calls of
  \<open>subscribe\<close> into the library; a program point is the call that is pending:
  \<^item> \<open>Subscribing\<close>: \<open>psc.Subscribe(w.options.Channel)\<close> (line 103), reached from the top
    of the goroutine's loop;
  \<^item> \<open>Receiving\<close>: \<open>psc.Receive()\<close> (line 109), inside the loop of \<open>subscribe\<close>;
  \<^item> \<open>Unsubscribing ret\<close>: the deferred \<open>psc.Unsubscribe()\<close> (line 106), run when
    \<open>subscribe\<close> returns \<open>ret\<close>.
  A step performs the pending call, takes what the call returns as its input, and runs
  the code up to the next call.
\<close>

datatype pc = Subscribing | Receiving | Unsubscribing "error option"

datatype reply =
    SubscribeReturns "error option"
  | ReceiveReturns event
  | UnsubscribeReturns "error option"

text \<open>Which reply the pending call of a program point can give.\<close>

definition expects :: "pc \<Rightarrow> reply \<Rightarrow> bool" where
  "expects p r =
     (case (p, r) of
        (Subscribing, SubscribeReturns res) \<Rightarrow> True
      | (Receiving, ReceiveReturns ev) \<Rightarrow> True
      | (Unsubscribing ret, UnsubscribeReturns res) \<Rightarrow> True
      | _ \<Rightarrow> False)"

text \<open>Where a step of \<open>subscribe\<close> ends: at the next call, in a return, or in a panic.\<close>

datatype sub_status = Running pc | Returned "error option" | Panicked

text \<open>\<open>w.callback(s)\<close>: calling a nil function value panics.\<close>

definition call_callback ::
  "(string \<Rightarrow> 'u \<Rightarrow> 'u) option \<Rightarrow> string \<Rightarrow> 'u world \<Rightarrow> 'u world outcome" where
  "call_callback cb s st =
     (case cb of
        None \<Rightarrow> Panic
      | Some f \<Rightarrow> Return ((emit (CallbackCall s) st)\<lparr>user := f s (user st)\<rparr>))"

text \<open>
  \<open>func (w *Watcher) subscribe() error\<close>, one step. \<open>psc\<close> wraps \<open>w.connection\<close>; a call
  on a nil connection panics. A reply that is not of the pending call gives no step.
  The type switch has no default case: a \<open>PMessage\<close> or a \<open>Pong\<close> falls through to the
  next iteration.
\<close>

definition subscribe_step ::
  "'u Watcher \<Rightarrow> pc \<Rightarrow> reply \<Rightarrow> 'u world \<Rightarrow> (sub_status \<times> 'u world) option" where
  "subscribe_step w p r st =
     (case connection w of
        None \<Rightarrow> Some (Panicked, st)
      | Some c \<Rightarrow>
          (case (p, r) of
             (Subscribing, SubscribeReturns res) \<Rightarrow>
               (let st1 = emit (SubscribeCall c (Channel (options w))) st
                in case res of
                     Some err \<Rightarrow> Some (Returned (Some err), st1)
                   | None \<Rightarrow> Some (Running Receiving, st1))
           | (Receiving, ReceiveReturns ev) \<Rightarrow>
               (let st1 = emit (ReceiveCall c) st
                in case ev of
                     RecvError err \<Rightarrow> Some (Running (Unsubscribing (Some err)), st1)
                   | Message ch data \<Rightarrow>
                       (if callback w \<noteq> None
                        then (case call_callback (callback w) (string_of_bytes data) st1 of
                                Panic \<Rightarrow> Some (Panicked, st1)
                              | Return st2 \<Rightarrow> Some (Running Receiving, st2))
                        else Some (Running Receiving, st1))
                   | Subscription kind ch count \<Rightarrow>
                       (if count = 0 then Some (Running (Unsubscribing None), st1)
                        else Some (Running Receiving, st1))
                   | PMessage pat ch data \<Rightarrow> Some (Running Receiving, st1)
                   | Pong data \<Rightarrow> Some (Running Receiving, st1))
           | (Unsubscribing ret, UnsubscribeReturns res) \<Rightarrow>
               Some (Returned ret, emit (UnsubscribeCall c) st)
           | _ \<Rightarrow> None))"

text \<open>
  The goroutine: \<open>for { err := w.subscribe(); if err != nil { fmt.Printf(...) } }\<close>.
  When \<open>subscribe\<close> returns, the error (if any) is printed and \<open>subscribe\<close> is called
  again. A panic ends the process.
\<close>

datatype goroutine = Loop pc | Crashed

definition goroutine_step ::
  "'u Watcher \<Rightarrow> reply \<Rightarrow> goroutine \<times> 'u world \<Rightarrow> (goroutine \<times> 'u world) option" where
  "goroutine_step w r g =
     (case g of
        (Crashed, st) \<Rightarrow> None
      | (Loop p, st) \<Rightarrow>
          (case subscribe_step w p r st of
             None \<Rightarrow> None
           | Some (Running p', st') \<Rightarrow> Some (Loop p', st')
           | Some (Returned None, st') \<Rightarrow> Some (Loop Subscribing, st')
           | Some (Returned (Some err), st') \<Rightarrow>
               Some (Loop Subscribing, emit (PrintfCall err) st')
           | Some (Panicked, st') \<Rightarrow> Some (Crashed, st')))"

text \<open>The goroutine over a sequence of replies, with the watcher left unchanged meanwhile.\<close>

fun run ::
  "'u Watcher \<Rightarrow> reply list \<Rightarrow> goroutine \<times> 'u world \<Rightarrow> (goroutine \<times> 'u world) option" where
  "run w [] g = Some g"
| "run w (r # rs) g =
     (case goroutine_step w r g of
        None \<Rightarrow> None
      | Some g' \<Rightarrow> run w rs g')"

section \<open>Properties\<close>

subsection \<open>Shared facts\<close>

lemma apply_setters_append:
  "apply_setters (ss @ ts) opts = apply_setters ts (apply_setters ss opts)"
  by (induction ss arbitrary: opts) simp_all

lemma apply_setters_preserve:
  "(\<forall>t\<in>set ts. \<forall>x. field (t x) = field x) \<Longrightarrow> field (apply_setters ts opts) = field opts"
  by (induction ts arbitrary: opts) simp_all

lemma connect_keeps:
  "connect e addr w st = (r, w', st') \<Longrightarrow> options w' = options w \<and> callback w' = callback w"
  by (auto simp: connect_def Let_def split: option.splits sum.splits if_splits)

lemma connect_connected:
  "connect e addr w st = (None, w', st') \<Longrightarrow> connection w' \<noteq> None"
  by (auto simp: connect_def Let_def split: option.splits sum.splits if_splits)

text \<open>
  A watcher that \<open>NewWatcher\<close> returns has the options the setters left, a connection,
  and no callback.
\<close>

lemma NewWatcher_Inr:
  assumes a: "NewWatcher e addr setters st = (Inr w, st')"
  shows "options w = apply_setters setters default_options \<and> callback w = None
    \<and> connection w \<noteq> None"
proof -
  let ?w0 = "\<lparr>options = apply_setters setters default_options, connection = None,
              callback = None\<rparr> :: 'a Watcher"
  obtain r w1 st1 where c: "connect e addr ?w0 st = (r, w1, st1)"
    by (metis prod_cases3)
  from a c have r: "r = None" and w: "w = w1"
    by (auto simp: NewWatcher_def split: option.splits)
  from connect_keeps [OF c] connect_connected [OF c [unfolded r]] w
  show ?thesis by simp
qed

lemma SetUpdateCallback_keeps:
  "connection (snd (SetUpdateCallback cb w)) = connection w
   \<and> options (snd (SetUpdateCallback cb w)) = options w"
  by (simp add: SetUpdateCallback_def)

lemma finalizer_closes:
  "connection w = Some c \<Longrightarrow>
   finalizer w st = (Return (), st\<lparr>trace := trace st @ [CloseCall c],
                                   open_conns := open_conns st - {c}\<rparr>)"
  by (simp add: finalizer_def close_conn_def emit_def)

lemma bytes_hi: "string_of_bytes [0x68, 0x69] = ''hi''"
  by code_simp

text \<open>
  \<open>string_of_bytes\<close> keeps every byte: the characters of the string have the values of
  the bytes, in order, and the bytes are read back from them.
\<close>

lemma string_of_bytes_codes:
  "map (\<lambda>ch. of_char ch :: nat) (string_of_bytes d) = map unat d"
proof -
  have "unat b mod 256 = unat b" for b :: byte
    using unsigned_less [of b, where ?'a = nat] by simp
  then show ?thesis
    by (simp add: string_of_bytes_def)
qed

lemma string_of_bytes_inverse:
  "map (\<lambda>ch. word_of_nat (of_char ch) :: byte) (string_of_bytes d) = d"
proof -
  have "map (\<lambda>ch. word_of_nat (of_char ch) :: byte) (string_of_bytes d) =
        map word_of_nat (map (\<lambda>ch. of_char ch :: nat) (string_of_bytes d))"
    by simp
  also have "\<dots> = map word_of_nat (map unat d)"
    by (simp only: string_of_bytes_codes)
  also have "\<dots> = d"
    by (simp add: map_idI)
  finally show ?thesis .
qed

text \<open>Neither the loop, nor \<open>Update\<close>, nor a successful \<open>NewWatcher\<close> closes a connection.\<close>

lemma goroutine_step_keeps_open:
  assumes "connection w = Some c"
    and "goroutine_step w r (Loop p, st) = Some (g, st')"
  shows "(\<exists>p'. g = Loop p') \<and> filter is_close (trace st') = filter is_close (trace st)
     \<and> open_conns st' = open_conns st"
  using assms
  by (cases p; cases r)
     (auto simp add: goroutine_step_def subscribe_step_def call_callback_def emit_def Let_def
        is_close_def split: option.splits event.splits if_splits)

lemma run_keeps_open:
  assumes "connection w = Some c"
  shows "run w rs (Loop p, st) = Some (g, st') \<Longrightarrow>
     (\<exists>p'. g = Loop p') \<and> filter is_close (trace st') = filter is_close (trace st)
     \<and> open_conns st' = open_conns st"
proof (induction rs arbitrary: p st)
  case Nil
  then show ?case by auto
next
  case (Cons r rs)
  from Cons.prems obtain g1 st1 where
    s: "goroutine_step w r (Loop p, st) = Some (g1, st1)" and
    r: "run w rs (g1, st1) = Some (g, st')"
    by (auto split: option.splits)
  from goroutine_step_keeps_open [OF assms s] obtain p1 where
    g1: "g1 = Loop p1" and
    k: "filter is_close (trace st1) = filter is_close (trace st)" "open_conns st1 = open_conns st"
    by blast
  from Cons.IH [OF r [unfolded g1]] k show ?case by simp
qed

lemma Update_keeps_open:
  "filter is_close (trace (snd (Update e w st))) = filter is_close (trace st)
   \<and> open_conns (snd (Update e w st)) = open_conns st"
  by (simp add: Update_def emit_def Let_def is_close_def split: option.splits)

lemma NewWatcher_no_close:
  assumes "NewWatcher e addr setters st = (Inr w, st1)"
  shows "filter is_close (trace st1) = filter is_close (trace st)
    \<and> length (filter (\<lambda>a. a = SetFinalizerCall) (trace st1)) =
       Suc (length (filter (\<lambda>a. a = SetFinalizerCall) (trace st)))
    \<and> length (filter (\<lambda>a. a = GoStmt) (trace st1)) =
       Suc (length (filter (\<lambda>a. a = GoStmt) (trace st)))
    \<and> (Connection (apply_setters setters default_options) = None \<longrightarrow>
         (\<exists>c. connection w = Some c \<and> c \<in> open_conns st1))"
  using assms
  by (auto simp add: NewWatcher_def connect_def emit_def Let_def is_close_def close_conn_def
        split: option.splits sum.splits if_splits)

text \<open>The steps of the loop, one per pending call.\<close>

lemma step_message:
  assumes "connection w = Some c"
  shows "goroutine_step w (ReceiveReturns (Message ch d)) (Loop Receiving, st) =
     Some (Loop Receiving,
       (case callback w of
          Some f \<Rightarrow> st\<lparr>trace := trace st @ [ReceiveCall c, CallbackCall (string_of_bytes d)],
                        user := f (string_of_bytes d) (user st)\<rparr>
        | None \<Rightarrow> st\<lparr>trace := trace st @ [ReceiveCall c]\<rparr>))"
  using assms
  by (simp add: goroutine_step_def subscribe_step_def call_callback_def emit_def Let_def
        split: option.splits)

lemma step_receive_issues:
  assumes "connection w = Some c"
  shows "\<exists>p st'. goroutine_step w (ReceiveReturns ev) (Loop Receiving, st) = Some (Loop p, st')
      \<and> take (Suc (length (trace st))) (trace st') = trace st @ [ReceiveCall c]"
  using assms
  by (cases ev)
     (auto simp add: goroutine_step_def subscribe_step_def call_callback_def emit_def Let_def
        split: option.splits)

lemma step_total:
  assumes "connection w = Some c" and "expects p r"
  shows "\<exists>p' st'. goroutine_step w r (Loop p, st) = Some (Loop p', st')"
  using assms
  by (cases p; cases r)
     (auto simp add: expects_def goroutine_step_def subscribe_step_def call_callback_def
        emit_def Let_def split: option.splits event.splits)

lemma step_recv_error:
  assumes "connection w = Some c"
  shows "goroutine_step w (ReceiveReturns (RecvError err)) (Loop Receiving, st) =
     Some (Loop (Unsubscribing (Some err)), st\<lparr>trace := trace st @ [ReceiveCall c]\<rparr>)"
  using assms
  by (simp add: goroutine_step_def subscribe_step_def emit_def Let_def)

lemma step_count_zero:
  assumes "connection w = Some c"
  shows "goroutine_step w (ReceiveReturns (Subscription kind ch 0)) (Loop Receiving, st) =
     Some (Loop (Unsubscribing None), st\<lparr>trace := trace st @ [ReceiveCall c]\<rparr>)"
  using assms
  by (simp add: goroutine_step_def subscribe_step_def emit_def Let_def)

lemma step_unsubscribe:
  assumes "connection w = Some c"
  shows "goroutine_step w (UnsubscribeReturns res) (Loop (Unsubscribing ret), st) =
     Some (Loop Subscribing,
       st\<lparr>trace := trace st @
            UnsubscribeCall c # (case ret of Some err \<Rightarrow> [PrintfCall err] | None \<Rightarrow> [])\<rparr>)"
  using assms
  by (simp add: goroutine_step_def subscribe_step_def emit_def Let_def split: option.splits)

lemma step_subscribe:
  assumes "connection w = Some c"
  shows "goroutine_step w (SubscribeReturns res) (Loop Subscribing, st) =
     Some (case res of
         None \<Rightarrow> (Loop Receiving,
            st\<lparr>trace := trace st @ [SubscribeCall c (Channel (options w))]\<rparr>)
       | Some err \<Rightarrow> (Loop Subscribing,
            st\<lparr>trace := trace st @ [SubscribeCall c (Channel (options w)), PrintfCall err]\<rparr>))"
  using assms
  by (simp add: goroutine_step_def subscribe_step_def emit_def Let_def split: option.splits)

lemma run_messages_nil:
  assumes "connection w = Some c" and "callback w = None"
  shows "run w (map (\<lambda>(ch, d). ReceiveReturns (Message ch d)) ms) (Loop Receiving, st) =
     Some (Loop Receiving, st\<lparr>trace := trace st @ replicate (length ms) (ReceiveCall c)\<rparr>)"
proof (induction ms arbitrary: st)
  case Nil
  show ?case by simp
next
  case (Cons m ms)
  obtain ch d where m: "m = (ch, d)" by (cases m)
  show ?case
    using assms by (simp add: m step_message Cons.IH replicate_append_same)
qed

lemma run_failing_rounds:
  assumes "connection w = Some c"
  shows "run w (concat (map (\<lambda>(err, res).
             [SubscribeReturns None, ReceiveReturns (RecvError err), UnsubscribeReturns res]) fs))
           (Loop Subscribing, st) =
         Some (Loop Subscribing, st\<lparr>trace := trace st @ concat (map (\<lambda>(err, res).
             [SubscribeCall c (Channel (options w)), ReceiveCall c, UnsubscribeCall c,
              PrintfCall err]) fs)\<rparr>)"
proof (induction fs arbitrary: st)
  case Nil
  show ?case by simp
next
  case (Cons f fs)
  obtain err res where f: "f = (err, res)" by (cases f)
  show ?case
    using assms
    by (simp add: f step_subscribe step_recv_error step_unsubscribe Cons.IH)
qed


subsection \<open>The background loop on a data message\<close>

text \<open>
  C1. When the pending \<open>psc.Receive()\<close> of the loop returns a data message, whatever its
  channel: with a callback registered, the callback is called once, in that same step,
  with the payload converted to a string (one \<open>CallbackCall\<close>, one application of the
  callback to the owner's state); with no callback, nothing but the receive happened and
  the owner's state is untouched. Either way the loop is at \<open>Receiving\<close> again, and
  from there its next action is the next \<open>ReceiveCall\<close>. The string the callback gets
  is the payload itself: its characters have the values of the payload's bytes, in
  order, and the payload is read back from it.
\<close>

theorem data_message_invokes_callback:
  assumes "connection w = Some c"
  shows "goroutine_step w (ReceiveReturns (Message ch d)) (Loop Receiving, st) =
       Some (Loop Receiving,
         (case callback w of
            Some f \<Rightarrow> st\<lparr>trace := trace st @ [ReceiveCall c, CallbackCall (string_of_bytes d)],
                          user := f (string_of_bytes d) (user st)\<rparr>
          | None \<Rightarrow> st\<lparr>trace := trace st @ [ReceiveCall c]\<rparr>))
     \<and> (\<exists>p st'. goroutine_step w (ReceiveReturns ev) (Loop Receiving, st2) = Some (Loop p, st')
            \<and> take (Suc (length (trace st2))) (trace st') = trace st2 @ [ReceiveCall c])
     \<and> map (\<lambda>ch. of_char ch :: nat) (string_of_bytes d) = map unat d
     \<and> map (\<lambda>ch. word_of_nat (of_char ch) :: byte) (string_of_bytes d) = d"
  using step_message [OF assms] step_receive_issues [OF assms]
    string_of_bytes_codes [of d] string_of_bytes_inverse [of d]
  by blast

theorem data_message_invokes_callback_witness:
  "goroutine_step
      \<lparr>options = default_options, connection = Some 1, callback = Some (\<lambda>s u. s # u)\<rparr>
      (ReceiveReturns (Message ''/casbin'' [0x68, 0x69]))
      (Loop Receiving, \<lparr>trace = [], open_conns = {1}, user = []\<rparr>) =
    Some (Loop Receiving,
      \<lparr>trace = [ReceiveCall 1, CallbackCall ''hi''], open_conns = {1}, user = [''hi'']\<rparr>)
   \<and> goroutine_step \<lparr>options = default_options, connection = Some 1, callback = None\<rparr>
      (ReceiveReturns (Message ''/casbin'' [0x68, 0x69]))
      (Loop Receiving, \<lparr>trace = [], open_conns = {1}, user = [''old'']\<rparr>) =
    Some (Loop Receiving, \<lparr>trace = [ReceiveCall 1], open_conns = {1}, user = [''old'']\<rparr>)"
  using data_message_invokes_callback
      [of "\<lparr>options = default_options, connection = Some 1, callback = Some (\<lambda>s u. s # u)\<rparr>" 1
          "''/casbin''" "[0x68, 0x69]" "\<lparr>trace = [], open_conns = {1}, user = []\<rparr>"]
    data_message_invokes_callback
      [of "\<lparr>options = default_options, connection = Some 1, callback = None\<rparr>" 1
          "''/casbin''" "[0x68, 0x69]" "\<lparr>trace = [], open_conns = {1}, user = [''old'']\<rparr>"]
  by (simp add: bytes_hi)

subsection \<open>Update\<close>

text \<open>
  C2. \<open>Update\<close> on a watcher that holds a connection adds exactly one action to the
  trace, the \<open>PUBLISH\<close> of the fixed text \<open>casbin rules updated\<close> on the configured
  channel, whether or not the command fails (no second attempt), and returns exactly the
  error of that command: an error if and only if the publish failed.
\<close>

theorem Update_publishes_once:
  assumes "connection w = Some c"
  shows "Update e w st =
       (Return (do_cmd e c ''PUBLISH'' [Channel (options w), ''casbin rules updated'']),
        st\<lparr>trace := trace st @
          [DoCall c ''PUBLISH'' [Channel (options w), ''casbin rules updated'']]\<rparr>)
     \<and> (fst (Update e w st) = Return None) =
       (do_cmd e c ''PUBLISH'' [Channel (options w), ''casbin rules updated''] = None)"
  using assms by (simp add: Update_def emit_def Let_def split: option.splits)

theorem Update_publishes_once_witness:
  "Update \<lparr>dial = (\<lambda>p a. Inl (Err ''refused'')),
           do_cmd = (\<lambda>c cmd args. Some (Err ''broken pipe''))\<rparr>
     \<lparr>options = default_options, connection = Some 3, callback = None\<rparr>
     \<lparr>trace = [], open_conns = {3}, user = ()\<rparr> =
   (Return (Some (Err ''broken pipe'')),
    \<lparr>trace = [DoCall 3 ''PUBLISH'' [''/casbin'', ''casbin rules updated'']],
     open_conns = {3}, user = ()\<rparr>)"
  using Update_publishes_once
     [of "\<lparr>options = default_options, connection = Some 3, callback = None\<rparr>" 3
       "\<lparr>dial = (\<lambda>p a. Inl (Err ''refused'')),
         do_cmd = (\<lambda>c cmd args. Some (Err ''broken pipe''))\<rparr>"
       "\<lparr>trace = [], open_conns = {3}, user = ()\<rparr>"]
  by simp

subsection \<open>Construction\<close>

text \<open>
  C3. When the resolved options hold no connection and a password, the dial succeeds
  with a connection \<open>c\<close> and the \<open>AUTH\<close> command on \<open>c\<close> is rejected, \<open>NewWatcher\<close>
  returns that error and no watcher; what it did is the dial, the \<open>AUTH\<close> and, last, the
  close of \<open>c\<close>; \<open>c\<close> is not open afterwards and no connection is open that was not open
  before; the finalizer is not registered and the loop is not started.
\<close>

theorem NewWatcher_auth_rejected:
  assumes "Connection (apply_setters setters default_options) = None"
    and "Password (apply_setters setters default_options) = pw" and "pw \<noteq> ''''"
    and "Protocol (apply_setters setters default_options) = proto"
    and "dial e proto addr = Inr c"
    and "do_cmd e c ''AUTH'' [pw] = Some err"
  shows "NewWatcher e addr setters st =
       (Inl err,
        st\<lparr>trace := trace st @ [DialCall proto addr, DoCall c ''AUTH'' [pw], CloseCall c],
           open_conns := open_conns st - {c}\<rparr>)
     \<and> c \<notin> open_conns (snd (NewWatcher e addr setters st))
     \<and> open_conns (snd (NewWatcher e addr setters st)) \<subseteq> open_conns st"
  using assms
  by (auto simp add: NewWatcher_def connect_def emit_def close_conn_def Let_def)

theorem NewWatcher_auth_rejected_witness:
  "NewWatcher
      \<lparr>dial = (\<lambda>p a. Inr 9), do_cmd = (\<lambda>c cmd args. Some (Err ''ERR invalid password''))\<rparr>
      ''127.0.0.1:6379'' [\<lambda>x. x\<lparr>Password := ''wrong''\<rparr>]
      \<lparr>trace = [], open_conns = {2}, user = ()\<rparr> =
    (Inl (Err ''ERR invalid password''),
     \<lparr>trace = [DialCall ''tcp'' ''127.0.0.1:6379'', DoCall 9 ''AUTH'' [''wrong''], CloseCall 9],
      open_conns = {2}, user = ()\<rparr>)"
  using NewWatcher_auth_rejected
     [of "[\<lambda>x. x\<lparr>Password := ''wrong''\<rparr>]" "''wrong''" "''tcp''"
         "\<lparr>dial = (\<lambda>p a. Inr 9), do_cmd = (\<lambda>c cmd args. Some (Err ''ERR invalid password''))\<rparr>"
         "''127.0.0.1:6379''" 9 "Err ''ERR invalid password''"
         "\<lparr>trace = [], open_conns = {2}, user = ()\<rparr>"]
  by simp

text \<open>
  C4. When the resolved options hold no connection and the dial fails, \<open>NewWatcher\<close>
  returns the error of the dial and no watcher, and the dial is all it did: no finalizer
  is registered and no \<open>go\<close> statement is run, so no loop is started.
\<close>

theorem NewWatcher_dial_fails:
  assumes "Connection (apply_setters setters default_options) = None"
    and "dial e (Protocol (apply_setters setters default_options)) addr = Inl err"
  shows "NewWatcher e addr setters st =
       (Inl err,
        st\<lparr>trace := trace st @
          [DialCall (Protocol (apply_setters setters default_options)) addr]\<rparr>)
     \<and> count_list (trace (snd (NewWatcher e addr setters st))) GoStmt =
       count_list (trace st) GoStmt"
  using assms by (simp add: NewWatcher_def connect_def emit_def Let_def)

theorem NewWatcher_dial_fails_witness:
  "NewWatcher
      \<lparr>dial = (\<lambda>p a. Inl (Err ''connection refused'')), do_cmd = (\<lambda>c cmd args. None)\<rparr>
      ''nowhere:1'' [] \<lparr>trace = [], open_conns = {}, user = ()\<rparr> =
    (Inl (Err ''connection refused''),
     \<lparr>trace = [DialCall ''tcp'' ''nowhere:1''], open_conns = {}, user = ()\<rparr>)"
  using NewWatcher_dial_fails
     [of "[]" "\<lparr>dial = (\<lambda>p a. Inl (Err ''connection refused'')), do_cmd = (\<lambda>c cmd args. None)\<rparr>"
         "''nowhere:1''" "Err ''connection refused''"
         "\<lparr>trace = [], open_conns = {}, user = ()\<rparr>"]
  by simp

text \<open>
  C5. When the resolved options hold a connection, \<open>NewWatcher\<close> succeeds with a watcher
  on exactly that connection; all it does is register the finalizer and start the loop:
  no dial, no \<open>AUTH\<close> (whatever the password option), no change to the open connections.
  The result does not depend on the address or on the environment.
\<close>

theorem NewWatcher_adopts:
  assumes "Connection (apply_setters setters default_options) = Some c"
  shows "NewWatcher e addr setters st =
       (Inr \<lparr>options = apply_setters setters default_options, connection = Some c,
             callback = None\<rparr>,
        st\<lparr>trace := trace st @ [SetFinalizerCall, GoStmt]\<rparr>)
     \<and> NewWatcher e addr setters st = NewWatcher e' addr' setters st"
  using assms by (simp add: NewWatcher_def connect_def emit_def Let_def)

theorem NewWatcher_adopts_witness:
  "NewWatcher
      \<lparr>dial = (\<lambda>p a. Inl (Err ''connection refused'')),
       do_cmd = (\<lambda>c cmd args. Some (Err ''NOAUTH''))\<rparr>
      ''nowhere:1'' [\<lambda>x. x\<lparr>Password := ''pass''\<rparr>, \<lambda>x. x\<lparr>Connection := Some 7\<rparr>]
      \<lparr>trace = [], open_conns = {7}, user = ()\<rparr> =
    (Inr \<lparr>options = \<lparr>Channel = ''/casbin'', Connection = Some 7, Password = ''pass'',
                      Protocol = ''tcp''\<rparr>,
          connection = Some 7, callback = None\<rparr>,
     \<lparr>trace = [SetFinalizerCall, GoStmt], open_conns = {7}, user = ()\<rparr>)"
  using NewWatcher_adopts
     [of "[\<lambda>x. x\<lparr>Password := ''pass''\<rparr>, \<lambda>x. x\<lparr>Connection := Some 7\<rparr>]" 7
         "\<lparr>dial = (\<lambda>p a. Inl (Err ''connection refused'')),
           do_cmd = (\<lambda>c cmd args. Some (Err ''NOAUTH''))\<rparr>"
         "''nowhere:1''" "\<lparr>trace = [], open_conns = {7}, user = ()\<rparr>"]
  by simp

text \<open>
  C7. The options of a watcher that \<open>NewWatcher\<close> returns are the defaults (channel
  \<open>/casbin\<close>, protocol \<open>tcp\<close>, no password, no connection) with the setters applied from
  first to last, each to what the previous ones left: with no setter they are the
  defaults; the last setter is applied to the result of all the others; a field (any
  function \<open>field\<close> of the options) that a setter sets to \<open>v\<close> and no later setter changes
  is \<open>v\<close>, whatever earlier setters did; a field that no setter changes has its default.
\<close>

theorem setters_applied_in_order:
  assumes "NewWatcher e addr setters st = (Inr w, st')"
  shows "options w = apply_setters setters default_options
     \<and> (setters = [] \<longrightarrow> options w = default_options)
     \<and> (\<forall>ss s. setters = ss @ [s] \<longrightarrow> options w = s (apply_setters ss default_options))
     \<and> (\<forall>ss s ts v. setters = ss @ s # ts \<and> (\<forall>x. field (s x) = v)
            \<and> (\<forall>t\<in>set ts. \<forall>x. field (t x) = field x) \<longrightarrow> field (options w) = v)
     \<and> ((\<forall>t\<in>set setters. \<forall>x. field (t x) = field x) \<longrightarrow>
            field (options w) = field default_options)"
proof -
  have o: "options w = apply_setters setters default_options"
    using NewWatcher_Inr [OF assms] by simp
  have last: "\<forall>ss s. setters = ss @ [s] \<longrightarrow> options w = s (apply_setters ss default_options)"
    by (simp add: o apply_setters_append)
  have over: "\<forall>ss s ts v. setters = ss @ s # ts \<and> (\<forall>x. field (s x) = v)
            \<and> (\<forall>t\<in>set ts. \<forall>x. field (t x) = field x) \<longrightarrow> field (options w) = v"
  proof (intro allI impI)
    fix ss s ts v
    assume h: "setters = ss @ s # ts \<and> (\<forall>x. field (s x) = v)
            \<and> (\<forall>t\<in>set ts. \<forall>x. field (t x) = field x)"
    then have "field (apply_setters ts (s (apply_setters ss default_options))) =
        field (s (apply_setters ss default_options))"
      using apply_setters_preserve [of ts field] by blast
    with h show "field (options w) = v"
      by (simp add: o apply_setters_append)
  qed
  have keep: "(\<forall>t\<in>set setters. \<forall>x. field (t x) = field x) \<longrightarrow>
            field (options w) = field default_options"
    using apply_setters_preserve [of setters field] by (simp add: o)
  from o last over keep show ?thesis by simp
qed

theorem setters_applied_in_order_witness:
  "NewWatcher \<lparr>dial = (\<lambda>p a. Inr 4), do_cmd = (\<lambda>c cmd args. None)\<rparr> ''127.0.0.1:6379''
      [\<lambda>x. x\<lparr>Channel := ''/a''\<rparr>, \<lambda>x. x\<lparr>Channel := ''/b''\<rparr>, \<lambda>x. x\<lparr>Password := ''pass''\<rparr>]
      \<lparr>trace = [], open_conns = {}, user = ()\<rparr> =
    (Inr \<lparr>options = \<lparr>Channel = ''/b'', Connection = None, Password = ''pass'',
                      Protocol = ''tcp''\<rparr>,
          connection = Some 4, callback = None\<rparr>,
     \<lparr>trace = [DialCall ''tcp'' ''127.0.0.1:6379'', DoCall 4 ''AUTH'' [''pass''],
               SetFinalizerCall, GoStmt],
      open_conns = {4}, user = ()\<rparr>)
   \<and> Channel (apply_setters
        [\<lambda>x. x\<lparr>Channel := ''/a''\<rparr>, \<lambda>x. x\<lparr>Channel := ''/b''\<rparr>, \<lambda>x. x\<lparr>Password := ''pass''\<rparr>]
        default_options) = ''/b''"
proof -
  have c: "NewWatcher \<lparr>dial = (\<lambda>p a. Inr 4), do_cmd = (\<lambda>c cmd args. None)\<rparr> ''127.0.0.1:6379''
      [\<lambda>x. x\<lparr>Channel := ''/a''\<rparr>, \<lambda>x. x\<lparr>Channel := ''/b''\<rparr>, \<lambda>x. x\<lparr>Password := ''pass''\<rparr>]
      \<lparr>trace = [], open_conns = {}, user = ()\<rparr> =
    (Inr \<lparr>options = \<lparr>Channel = ''/b'', Connection = None, Password = ''pass'',
                      Protocol = ''tcp''\<rparr>,
          connection = Some 4, callback = None\<rparr>,
     \<lparr>trace = [DialCall ''tcp'' ''127.0.0.1:6379'', DoCall 4 ''AUTH'' [''pass''],
               SetFinalizerCall, GoStmt],
      open_conns = {4}, user = ()\<rparr>)"
    by (simp add: NewWatcher_def connect_def emit_def Let_def)
  from setters_applied_in_order [OF c, where field = Channel] have
    "\<lparr>Channel = ''/b'', Connection = None, Password = ''pass'', Protocol = ''tcp''\<rparr> =
     apply_setters
        [\<lambda>x. x\<lparr>Channel := ''/a''\<rparr>, \<lambda>x. x\<lparr>Channel := ''/b''\<rparr>, \<lambda>x. x\<lparr>Password := ''pass''\<rparr>]
        default_options"
    by simp
  then have "Channel (apply_setters
        [\<lambda>x. x\<lparr>Channel := ''/a''\<rparr>, \<lambda>x. x\<lparr>Channel := ''/b''\<rparr>, \<lambda>x. x\<lparr>Password := ''pass''\<rparr>]
        default_options) = Channel \<lparr>Channel = ''/b'', Connection = None, Password = ''pass'', Protocol = ''tcp''\<rparr>"
    by (rule arg_cong [OF sym])
  with c show ?thesis by simp
qed

subsection \<open>The background loop on errors and on the end of a subscription\<close>

text \<open>
  C6. When the pending \<open>psc.Receive()\<close> returns an error, \<open>subscribe\<close> leaves its receive
  loop for the deferred \<open>psc.Unsubscribe()\<close>, holding the error as its return value.
  Whatever the unsubscribe returns, the goroutine then prints the error of the receive
  (its only effect: the owner's state and the open connections are as before, and the
  loop hands no value to anyone) and is at \<open>Subscribing\<close> again: the action that follows
  the print is the next \<open>SubscribeCall\<close>, with nothing in between. This holds round after
  round, for any number of failing rounds, and from every program point, whatever the
  pending call returns, the loop goes on to a program point: it never ends.
\<close>

theorem receive_error_retries_forever:
  assumes "connection w = Some c"
  shows "subscribe_step w Receiving (ReceiveReturns (RecvError err)) st =
       Some (Running (Unsubscribing (Some err)), st\<lparr>trace := trace st @ [ReceiveCall c]\<rparr>)
     \<and> goroutine_step w (UnsubscribeReturns res) (Loop (Unsubscribing (Some err)), st) =
       Some (Loop Subscribing, st\<lparr>trace := trace st @ [UnsubscribeCall c, PrintfCall err]\<rparr>)
     \<and> run w [ReceiveReturns (RecvError err), UnsubscribeReturns res, SubscribeReturns res']
           (Loop Receiving, st) =
       Some (case res' of
           None \<Rightarrow> (Loop Receiving, st\<lparr>trace := trace st @
              [ReceiveCall c, UnsubscribeCall c, PrintfCall err,
               SubscribeCall c (Channel (options w))]\<rparr>)
         | Some err' \<Rightarrow> (Loop Subscribing, st\<lparr>trace := trace st @
              [ReceiveCall c, UnsubscribeCall c, PrintfCall err,
               SubscribeCall c (Channel (options w)), PrintfCall err']\<rparr>))
     \<and> run w (concat (map (\<lambda>(err, res).
             [SubscribeReturns None, ReceiveReturns (RecvError err), UnsubscribeReturns res]) fs))
           (Loop Subscribing, st) =
       Some (Loop Subscribing, st\<lparr>trace := trace st @ concat (map (\<lambda>(err, res).
             [SubscribeCall c (Channel (options w)), ReceiveCall c, UnsubscribeCall c,
              PrintfCall err]) fs)\<rparr>)
     \<and> (\<forall>p r s. expects p r \<longrightarrow>
           (\<exists>p' s'. goroutine_step w r (Loop p, s) = Some (Loop p', s')))"
proof -
  have a: "subscribe_step w Receiving (ReceiveReturns (RecvError err)) st =
       Some (Running (Unsubscribing (Some err)), st\<lparr>trace := trace st @ [ReceiveCall c]\<rparr>)"
    using assms by (simp add: subscribe_step_def emit_def Let_def)
  have b: "goroutine_step w (UnsubscribeReturns res) (Loop (Unsubscribing (Some err)), st) =
       Some (Loop Subscribing, st\<lparr>trace := trace st @ [UnsubscribeCall c, PrintfCall err]\<rparr>)"
    by (simp add: step_unsubscribe [OF assms])
  have c: "run w [ReceiveReturns (RecvError err), UnsubscribeReturns res, SubscribeReturns res']
           (Loop Receiving, st) =
       Some (case res' of
           None \<Rightarrow> (Loop Receiving, st\<lparr>trace := trace st @
              [ReceiveCall c, UnsubscribeCall c, PrintfCall err,
               SubscribeCall c (Channel (options w))]\<rparr>)
         | Some err' \<Rightarrow> (Loop Subscribing, st\<lparr>trace := trace st @
              [ReceiveCall c, UnsubscribeCall c, PrintfCall err,
               SubscribeCall c (Channel (options w)), PrintfCall err']\<rparr>))"
    by (simp add: step_recv_error [OF assms] step_unsubscribe [OF assms]
          step_subscribe [OF assms] split: option.splits)
  have e: "\<forall>p r s. expects p r \<longrightarrow>
      (\<exists>p' s'. goroutine_step w r (Loop p, s) = Some (Loop p', s'))"
    using step_total [OF assms] by blast
  from a b c run_failing_rounds [OF assms] e show ?thesis by blast
qed

theorem receive_error_retries_forever_witness:
  "run \<lparr>options = default_options, connection = Some 1, callback = None\<rparr>
      [ReceiveReturns (RecvError (Err ''EOF'')), UnsubscribeReturns (Some (Err ''closed'')),
       SubscribeReturns (Some (Err ''closed'')), SubscribeReturns None]
      (Loop Receiving, \<lparr>trace = [], open_conns = {1}, user = ()\<rparr>) =
    Some (Loop Receiving,
      \<lparr>trace = [ReceiveCall 1, UnsubscribeCall 1, PrintfCall (Err ''EOF''),
                SubscribeCall 1 ''/casbin'', PrintfCall (Err ''closed''),
                SubscribeCall 1 ''/casbin''],
       open_conns = {1}, user = ()\<rparr>)
   \<and> run \<lparr>options = default_options, connection = Some 1, callback = None\<rparr>
      [ReceiveReturns (RecvError (Err ''EOF'')), UnsubscribeReturns (Some (Err ''closed'')),
       SubscribeReturns (Some (Err ''closed''))]
      (Loop Receiving, \<lparr>trace = [], open_conns = {1}, user = ()\<rparr>) =
    Some (Loop Subscribing,
      \<lparr>trace = [ReceiveCall 1, UnsubscribeCall 1, PrintfCall (Err ''EOF''),
                SubscribeCall 1 ''/casbin'', PrintfCall (Err ''closed'')],
       open_conns = {1}, user = ()\<rparr>)"
proof -
  let ?w = "\<lparr>options = default_options, connection = Some 1, callback = None\<rparr> :: unit Watcher"
  let ?st = "\<lparr>trace = [], open_conns = {1}, user = ()\<rparr>"
  have h: "connection ?w = Some 1" by simp
  note t = receive_error_retries_forever [OF h, of "Err ''EOF''" ?st "Some (Err ''closed'')"
      "Some (Err ''closed'')" "[]"]
  from t have second: "run ?w
      [ReceiveReturns (RecvError (Err ''EOF'')), UnsubscribeReturns (Some (Err ''closed'')),
       SubscribeReturns (Some (Err ''closed''))] (Loop Receiving, ?st) =
    Some (Loop Subscribing,
      \<lparr>trace = [ReceiveCall 1, UnsubscribeCall 1, PrintfCall (Err ''EOF''),
                SubscribeCall 1 ''/casbin'', PrintfCall (Err ''closed'')],
       open_conns = {1}, user = ()\<rparr>)"
    by simp
  have first: "run ?w
      [ReceiveReturns (RecvError (Err ''EOF'')), UnsubscribeReturns (Some (Err ''closed'')),
       SubscribeReturns (Some (Err ''closed'')), SubscribeReturns None] (Loop Receiving, ?st) =
    Some (Loop Receiving,
      \<lparr>trace = [ReceiveCall 1, UnsubscribeCall 1, PrintfCall (Err ''EOF''),
                SubscribeCall 1 ''/casbin'', PrintfCall (Err ''closed''),
                SubscribeCall 1 ''/casbin''],
       open_conns = {1}, user = ()\<rparr>)"
    by (simp add: goroutine_step_def subscribe_step_def emit_def Let_def)
  from first second show ?thesis by simp
qed

text \<open>
  C8. When the pending \<open>psc.Receive()\<close> returns a subscription event with count zero,
  \<open>subscribe\<close> leaves its receive loop for the deferred \<open>psc.Unsubscribe()\<close> with the
  return value nil, and returns nil whatever the unsubscribe returns; the goroutine
  prints nothing and is back at the top of its loop, at \<open>Subscribing\<close>.
\<close>

theorem count_zero_unsubscribes_cleanly:
  assumes "connection w = Some c"
  shows "subscribe_step w Receiving (ReceiveReturns (Subscription kind ch 0)) st =
       Some (Running (Unsubscribing None), st\<lparr>trace := trace st @ [ReceiveCall c]\<rparr>)
     \<and> subscribe_step w (Unsubscribing None) (UnsubscribeReturns res) st =
       Some (Returned None, st\<lparr>trace := trace st @ [UnsubscribeCall c]\<rparr>)
     \<and> run w [ReceiveReturns (Subscription kind ch 0), UnsubscribeReturns res]
           (Loop Receiving, st) =
       Some (Loop Subscribing, st\<lparr>trace := trace st @ [ReceiveCall c, UnsubscribeCall c]\<rparr>)"
  using assms
  by (simp add: step_count_zero step_unsubscribe) (simp add: subscribe_step_def emit_def Let_def)

theorem count_zero_unsubscribes_cleanly_witness:
  "run \<lparr>options = default_options, connection = Some 1, callback = Some (\<lambda>s u. s # u)\<rparr>
      [ReceiveReturns (Subscription ''unsubscribe'' ''/casbin'' 0),
       UnsubscribeReturns (Some (Err ''closed''))]
      (Loop Receiving, \<lparr>trace = [], open_conns = {1}, user = []\<rparr>) =
    Some (Loop Subscribing,
      \<lparr>trace = [ReceiveCall 1, UnsubscribeCall 1], open_conns = {1}, user = []\<rparr>)"
  using count_zero_unsubscribes_cleanly
     [of "\<lparr>options = default_options, connection = Some 1, callback = Some (\<lambda>s u. s # u)\<rparr>" 1
         "''unsubscribe''" "''/casbin''" "\<lparr>trace = [], open_conns = {1}, user = []\<rparr>"
         "Some (Err ''closed'')"]
  by simp

subsection \<open>A watcher without a callback\<close>

text \<open>
  C10. On a watcher whose callback is nil (as \<open>NewWatcher\<close> returns it, see
  \<open>NewWatcher_Inr\<close>), any number of data messages in a row leave the loop at
  \<open>Receiving\<close>: it has not panicked, the trace has grown by the receives only (no
  \<open>CallbackCall\<close>), and the owner's state is as before. \<open>SetUpdateCallback\<close> stores
  the callback and returns nil, for every watcher and every callback.
\<close>

theorem nil_callback_is_safe:
  assumes "connection w = Some c" and "callback w = None"
  shows "run w (map (\<lambda>(ch, d). ReceiveReturns (Message ch d)) ms) (Loop Receiving, st) =
       Some (Loop Receiving, st\<lparr>trace := trace st @ replicate (length ms) (ReceiveCall c)\<rparr>)
     \<and> SetUpdateCallback cb w' = (None, w'\<lparr>callback := cb\<rparr>)"
  using run_messages_nil [OF assms] by (simp add: SetUpdateCallback_def)

theorem nil_callback_is_safe_witness:
  "NewWatcher \<lparr>dial = (\<lambda>p a. Inr 4), do_cmd = (\<lambda>c cmd args. None)\<rparr> ''127.0.0.1:6379'' []
      \<lparr>trace = [], open_conns = {}, user = [''old'']\<rparr> =
    (Inr \<lparr>options = default_options, connection = Some 4, callback = None\<rparr>,
     \<lparr>trace = [DialCall ''tcp'' ''127.0.0.1:6379'', SetFinalizerCall, GoStmt],
      open_conns = {4}, user = [''old'']\<rparr>)
   \<and> run \<lparr>options = default_options, connection = Some 4, callback = None\<rparr>
      (map (\<lambda>(ch, d). ReceiveReturns (Message ch d)) [(''/casbin'', [0x68, 0x69]), (''/other'', [])])
      (Loop Receiving, \<lparr>trace = [], open_conns = {4}, user = [''old'']\<rparr>) =
    Some (Loop Receiving,
      \<lparr>trace = [ReceiveCall 4, ReceiveCall 4], open_conns = {4}, user = [''old'']\<rparr>)"
proof -
  have n: "NewWatcher \<lparr>dial = (\<lambda>p a. Inr 4), do_cmd = (\<lambda>c cmd args. None)\<rparr> ''127.0.0.1:6379'' []
      \<lparr>trace = [], open_conns = {}, user = [''old'']\<rparr> =
    (Inr \<lparr>options = default_options, connection = Some 4, callback = None\<rparr>,
     \<lparr>trace = [DialCall ''tcp'' ''127.0.0.1:6379'', SetFinalizerCall, GoStmt],
      open_conns = {4}, user = [''old'']\<rparr>)"
    by (simp add: NewWatcher_def connect_def emit_def Let_def)
  let ?w = "\<lparr>options = default_options, connection = Some 4, callback = None\<rparr>
     :: string list Watcher"
  have h1: "connection ?w = Some 4" and h2: "callback ?w = None" by simp_all
  from nil_callback_is_safe [OF h1 h2,
      where ms = "[(''/casbin'', [0x68, 0x69]), (''/other'', [])]"
        and st = "\<lparr>trace = [], open_conns = {4}, user = [''old'']\<rparr>", THEN conjunct1]
  have "run ?w
      (map (\<lambda>(ch, d). ReceiveReturns (Message ch d)) [(''/casbin'', [0x68, 0x69]), (''/other'', [])])
      (Loop Receiving, \<lparr>trace = [], open_conns = {4}, user = [''old'']\<rparr>) =
    Some (Loop Receiving,
      \<lparr>trace = [ReceiveCall 4, ReceiveCall 4], open_conns = {4}, user = [''old'']\<rparr>)"
    by (simp add: numeral_2_eq_2)
  with n show ?thesis by simp
qed

subsection \<open>The finalizer and the life of the connection\<close>

text \<open>
  C9. What the code does for the connection of a watcher that \<open>NewWatcher\<close> returned:
  \<open>NewWatcher\<close> registers the finalizer once and closes nothing; \<open>finalizer\<close>, if it is
  run, closes the watcher's connection with one \<open>CloseCall\<close>. But the goroutine that
  \<open>NewWatcher\<close> starts works on the watcher \<open>w\<close> in every step, is at a program point
  after every run and can always go on, and neither it nor \<open>Update\<close> ever closes a
  connection: after any run no close has been added to the trace, the open connections
  are as construction left them, and a connection that \<open>NewWatcher\<close> dialed is still
  open. Nothing but the finalizer closes the connection, and the goroutine holds the
  watcher as long as it runs.
\<close>

theorem connection_never_closed_while_loop_runs:
  assumes "NewWatcher e addr setters st = (Inr w, st1)"
    and "run w rs (Loop Subscribing, st1) = Some (g, st2)"
  shows "(\<exists>p. g = Loop p)
     \<and> filter is_close (trace st2) = filter is_close (trace st)
     \<and> open_conns st2 = open_conns st1
     \<and> (Connection (apply_setters setters default_options) = None \<longrightarrow>
          (\<exists>c. connection w = Some c \<and> c \<in> open_conns st2))
     \<and> length (filter (\<lambda>a. a = SetFinalizerCall) (trace st1)) =
         Suc (length (filter (\<lambda>a. a = SetFinalizerCall) (trace st)))
     \<and> filter is_close (trace (snd (Update e' w st3))) = filter is_close (trace st3)
     \<and> (\<forall>p r s. expects p r \<longrightarrow>
           (\<exists>p' s'. goroutine_step w r (Loop p, s) = Some (Loop p', s')))
     \<and> (\<exists>c. connection w = Some c
           \<and> finalizer w st2 = (Return (), st2\<lparr>trace := trace st2 @ [CloseCall c],
                                                 open_conns := open_conns st2 - {c}\<rparr>))"
proof -
  from NewWatcher_Inr [OF assms(1)] obtain c where c: "connection w = Some c"
    by auto
  note n = NewWatcher_no_close [OF assms(1)]
  note r = run_keeps_open [OF c assms(2)]
  have alive: "\<exists>p. g = Loop p" using r by blast
  have closes: "filter is_close (trace st2) = filter is_close (trace st)"
    using r n by simp
  have opens: "open_conns st2 = open_conns st1" using r by blast
  have dialed: "Connection (apply_setters setters default_options) = None \<longrightarrow>
          (\<exists>c. connection w = Some c \<and> c \<in> open_conns st2)"
    using n opens by simp
  have registered: "length (filter (\<lambda>a. a = SetFinalizerCall) (trace st1)) =
         Suc (length (filter (\<lambda>a. a = SetFinalizerCall) (trace st)))"
    using n by blast
  have upd: "filter is_close (trace (snd (Update e' w st3))) = filter is_close (trace st3)"
    using Update_keeps_open [of e' w st3] by blast
  have goes_on: "\<forall>p r s. expects p r \<longrightarrow>
      (\<exists>p' s'. goroutine_step w r (Loop p, s) = Some (Loop p', s'))"
    using step_total [OF c] by blast
  have fin: "\<exists>c. connection w = Some c
           \<and> finalizer w st2 = (Return (), st2\<lparr>trace := trace st2 @ [CloseCall c],
                                                 open_conns := open_conns st2 - {c}\<rparr>)"
    using c finalizer_closes [OF c, of st2] by blast
  from alive closes opens dialed registered upd goes_on fin show ?thesis
    by blast
qed

theorem connection_never_closed_while_loop_runs_witness:
  "NewWatcher \<lparr>dial = (\<lambda>p a. Inr 4), do_cmd = (\<lambda>c cmd args. None)\<rparr> ''127.0.0.1:6379'' []
      \<lparr>trace = [], open_conns = {}, user = ()\<rparr> =
    (Inr \<lparr>options = default_options, connection = Some 4, callback = None\<rparr>,
     \<lparr>trace = [DialCall ''tcp'' ''127.0.0.1:6379'', SetFinalizerCall, GoStmt],
      open_conns = {4}, user = ()\<rparr>)
   \<and> run \<lparr>options = default_options, connection = Some 4, callback = None\<rparr>
      [SubscribeReturns None, ReceiveReturns (RecvError (Err ''EOF'')), UnsubscribeReturns None]
      (Loop Subscribing,
       \<lparr>trace = [DialCall ''tcp'' ''127.0.0.1:6379'', SetFinalizerCall, GoStmt],
        open_conns = {4}, user = ()\<rparr>) =
    Some (Loop Subscribing,
      \<lparr>trace = [DialCall ''tcp'' ''127.0.0.1:6379'', SetFinalizerCall, GoStmt,
                SubscribeCall 4 ''/casbin'', ReceiveCall 4, UnsubscribeCall 4,
                PrintfCall (Err ''EOF'')],
       open_conns = {4}, user = ()\<rparr>)
   \<and> filter is_close
        [DialCall ''tcp'' ''127.0.0.1:6379'', SetFinalizerCall, GoStmt,
         SubscribeCall 4 ''/casbin'', ReceiveCall 4, UnsubscribeCall 4,
         PrintfCall (Err ''EOF'')] = []
   \<and> 4 \<in> open_conns
        \<lparr>trace = [DialCall ''tcp'' ''127.0.0.1:6379'', SetFinalizerCall, GoStmt,
                  SubscribeCall 4 ''/casbin'', ReceiveCall 4, UnsubscribeCall 4,
                  PrintfCall (Err ''EOF'')],
         open_conns = {4}, user = ()\<rparr>"
proof -
  let ?e = "\<lparr>dial = (\<lambda>p a. Inr 4), do_cmd = (\<lambda>c cmd args. None)\<rparr>"
  let ?w = "\<lparr>options = default_options, connection = Some 4, callback = None\<rparr> :: unit Watcher"
  let ?st = "\<lparr>trace = [], open_conns = {}, user = ()\<rparr>"
  let ?st1 = "\<lparr>trace = [DialCall ''tcp'' ''127.0.0.1:6379'', SetFinalizerCall, GoStmt],
      open_conns = {4}, user = ()\<rparr>"
  let ?st2 = "\<lparr>trace = [DialCall ''tcp'' ''127.0.0.1:6379'', SetFinalizerCall, GoStmt,
                SubscribeCall 4 ''/casbin'', ReceiveCall 4, UnsubscribeCall 4,
                PrintfCall (Err ''EOF'')],
       open_conns = {4}, user = ()\<rparr>"
  have n: "NewWatcher ?e ''127.0.0.1:6379'' [] ?st = (Inr ?w, ?st1)"
    by (simp add: NewWatcher_def connect_def emit_def Let_def)
  have r: "run ?w
      [SubscribeReturns None, ReceiveReturns (RecvError (Err ''EOF'')), UnsubscribeReturns None]
      (Loop Subscribing, ?st1) = Some (Loop Subscribing, ?st2)"
    by (simp add: goroutine_step_def subscribe_step_def emit_def Let_def)
  note t = connection_never_closed_while_loop_runs [OF n r]
  from t have c: "filter is_close (trace ?st2) = filter is_close (trace ?st)"
    by blast
  from t have "\<exists>c. connection ?w = Some c \<and> c \<in> open_conns ?st2"
    by simp
  then have o: "4 \<in> open_conns ?st2" by simp
  from n r c o show ?thesis by simp
qed

end
